theory Spec2Isabelle
  imports
    Main
    "HOL-Library.Char_ord"
    "HOL-Library.List_Lexorder"
    "HOL-Library.Product_Lexorder"
begin

section \<open>Python values, exceptions and built-ins used by cliglue\<close>

text \<open>
  Strings are \<open>string\<close> (lists of characters). Python's \<open>len\<close>, \<open>upper\<close> and
  string comparison work on code points; the model agrees with them on ASCII text,
  which is what keywords and tokens of a command line are made of.
  A Python \<open>set\<close> of strings is modelled as the list of its elements in the
  iteration order of the interpreter; that order is an input of the model, not a
  function of the elements.
\<close>

datatype pyvalue =
    VNone
  | VBool bool
  | VInt int
  | VStr string
  | VList "pyvalue list"

text \<open>The failure kinds of the error taxonomy, all of them subclasses of \<open>CliError\<close>.\<close>

datatype cli_error =
    MissingValue
  | ConversionError
  | ChoiceViolation
  | UnknownToken
  | MissingRequiredArgument
  | DuplicateKeyword

datatype exn =
    ValueError
  | TypeError
  | AttributeError
  | StopIteration
  | CliError cli_error
  | Exception string

type_synonym 'a result = "exn + 'a"

text \<open>
  The built-in \<open>int(s)\<close> on a string, base 10: surrounding whitespace is stripped, one
  sign is allowed, and the digits may be grouped by single underscores. Anything else
  raises \<open>ValueError\<close>.
\<close>

definition is_space :: "char \<Rightarrow> bool" where
  "is_space c = (c \<in> set [CHR '' '', CHR 0x09, CHR 0x0A, CHR 0x0B, CHR 0x0C, CHR 0x0D])"

definition is_digit :: "char \<Rightarrow> bool" where
  "is_digit c = (CHR ''0'' \<le> c \<and> c \<le> CHR ''9'')"

definition strip :: "string \<Rightarrow> string" where
  "strip s = rev (dropWhile is_space (rev (dropWhile is_space s)))"

fun digits_ok :: "string \<Rightarrow> bool" where
  "digits_ok [] = False"
| "digits_ok [c] = is_digit c"
| "digits_ok (c # d # cs) =
     (is_digit c \<and> (if d = CHR ''_'' then digits_ok cs else digits_ok (d # cs)))"

definition digits_value :: "string \<Rightarrow> int" where
  "digits_value s =
     foldl (\<lambda>a c. 10 * a + (int (of_char c) - 48)) 0 (filter (\<lambda>c. c \<noteq> CHR ''_'') s)"

definition py_int :: "string \<Rightarrow> pyvalue result" where
  "py_int s =
     (let t = strip s;
          (neg, ds) = (case t of
                         c # cs \<Rightarrow> if c = CHR ''-'' then (True, cs)
                                   else if c = CHR ''+'' then (False, cs)
                                   else (False, t)
                       | [] \<Rightarrow> (False, t))
      in if digits_ok ds
         then Inr (VInt (if neg then - digits_value ds else digits_value ds))
         else Inl ValueError)"

text \<open>\<open>str.upper()\<close> on ASCII text.\<close>

definition upper_char :: "char \<Rightarrow> char" where
  "upper_char c =
     (if CHR ''a'' \<le> c \<and> c \<le> CHR ''z'' then char_of (of_char c - (32::nat)) else c)"

definition upper :: "string \<Rightarrow> string" where
  "upper s = map upper_char s"

text \<open>\<open>sep.join(xs)\<close>.\<close>

fun join :: "string \<Rightarrow> string list \<Rightarrow> string" where
  "join sep [] = []"
| "join sep [x] = x"
| "join sep (x # y # ys) = x @ sep @ join sep (y # ys)"

text \<open>\<open>s.ljust(n)\<close>: pads with spaces on the right up to width \<open>n\<close>.\<close>

definition ljust :: "string \<Rightarrow> nat \<Rightarrow> string" where
  "ljust s n = s @ replicate (n - length s) CHR '' ''"

section \<open>cliglue.parser.value\<close>

text \<open>
  \<open>TypeOrParser\<close>: the \<open>type\<close> field of a value rule is \<open>None\<close>, or an object that is
  called with the raw string. A class such as \<open>int\<close> and a parser function are both
  callables; an object that is not callable raises \<open>TypeError\<close> when it is called.
\<close>

datatype type_or_parser =
    Callable "string \<Rightarrow> pyvalue result"
  | NotCallable

fun callable :: "type_or_parser \<Rightarrow> bool" where
  "callable (Callable f) = True"
| "callable NotCallable = False"

fun call :: "type_or_parser \<Rightarrow> string \<Rightarrow> pyvalue result" where
  "call (Callable f) arg = f arg"
| "call NotCallable arg = Inl TypeError"

text \<open>
  \<open>choices\<close> of a value rule: a list, or a function of no argument that produces
  the list (or raises) when it is called.
\<close>

datatype choice_provider =
    ChoiceList "pyvalue list"
  | ChoiceProducer "unit \<Rightarrow> pyvalue list result"

text \<open>
  Modelled from the spec: the rule classes (\<open>cliglue.builder.rule\<close>) are not part of
  the sources at hand. The fields are those of section 3 of the specification. The
  fields that a parameter and a positional argument share (\<open>ValueRule\<close>) are
  gathered in one record, which the other two extend. The \<open>action\<close> of a subcommand
  is never read by the functions modelled here and is left out.
\<close>

record value_rule =
  type :: "type_or_parser option"
  default :: "pyvalue option"
  required :: bool
  choices :: "choice_provider option"
  strict_choices :: bool

record parameter_rule = value_rule +
  param_keywords :: "string list"
  name :: "string option"
  multiple :: bool
  param_help :: "string option"

record argument_rule = value_rule +
  arg_name :: string
  arg_help :: "string option"

datatype rule =
    is_SubcommandRule: SubcommandRule "string list" "string option" "rule list"
  | is_PrimaryOptionRule: PrimaryOptionRule "string list" "string option"
  | is_FlagRule: FlagRule "string list" "string option"
  | is_ParameterRule: ParameterRule parameter_rule
  | is_PositionalArgumentRule: PositionalArgumentRule argument_rule
  | is_AllArgumentsRule: AllArgumentsRule string

definition parse_typed_value :: "type_or_parser option \<Rightarrow> string \<Rightarrow> pyvalue result" where
  "parse_typed_value t arg =
     (case t of
        None \<Rightarrow> Inr (VStr arg)
      | Some ty \<Rightarrow> if callable ty then call ty arg else call ty arg)"

definition parse_value_rule :: "'a value_rule_scheme \<Rightarrow> string \<Rightarrow> pyvalue result" where
  "parse_value_rule rule arg = parse_typed_value (type rule) arg"

text \<open>
  \<open>not rule.choices\<close> holds for \<open>None\<close> and for the empty list; a function object is
  never falsy. \<open>inspect.getfullargspec\<close> of a Python function only reads its
  signature, and its result is discarded.
\<close>

definition generate_value_choices :: "'a value_rule_scheme \<Rightarrow> pyvalue list result" where
  "generate_value_choices rule =
     (case choices rule of
        None \<Rightarrow> Inr []
      | Some (ChoiceList xs) \<Rightarrow> if xs = [] then Inr [] else Inr xs
      | Some (ChoiceProducer p) \<Rightarrow> p ())"

section \<open>cliglue.help.help\<close>

text \<open>
  The dataclass \<open>_OptionHelp\<close>. An instance is never falsy.
\<close>

datatype option_help =
  OptionHelp (cmd: string) (help_text: "string option") (parent: "option_help option")

text \<open>
  Modelled from the spec: \<open>RunContext\<close> (\<open>cliglue.parser.context\<close>) is not part of
  the sources at hand. It is the resolution context of section 4.3: the stack of
  matched subcommands (innermost last), the rules reachable at that scope, and the
  bindings.
\<close>

record run_context =
  active_subcommands :: "rule list"
  active_rules :: "rule list"
  bindings :: "string \<rightharpoonup> pyvalue"

text \<open>
  Truthiness of an optional string: \<open>None\<close> and the empty string are falsy.
  \<open>truthy s\<close> is the string when it is truthy.
\<close>

definition truthy :: "string option \<Rightarrow> string option" where
  "truthy s = (case s of None \<Rightarrow> None | Some x \<Rightarrow> if x = [] then None else Some x)"

text \<open>
  Modelled from the spec: \<open>filter_rules\<close> (\<open>cliglue.parser.rule_process\<close>) is not
  part of the sources at hand. Section 9 describes the rule kinds as tagged variants
  that the original tells apart by type checks: \<open>filter_rules(rules, T)\<close> keeps the
  rules of kind \<open>T\<close>, in order. The kind is given by its projection, so that the
  result has the fields of that kind.
\<close>

definition filter_rules :: "rule list \<Rightarrow> (rule \<Rightarrow> 'a option) \<Rightarrow> 'a list" where
  "filter_rules rules kind = List.map_filter kind rules"

fun SubcommandRule_kind :: "rule \<Rightarrow> rule option" where
  "SubcommandRule_kind (SubcommandRule k h s) = Some (SubcommandRule k h s)"
| "SubcommandRule_kind r = None"

fun PrimaryOptionRule_kind :: "rule \<Rightarrow> rule option" where
  "PrimaryOptionRule_kind (PrimaryOptionRule k h) = Some (PrimaryOptionRule k h)"
| "PrimaryOptionRule_kind r = None"

fun FlagRule_kind :: "rule \<Rightarrow> rule option" where
  "FlagRule_kind (FlagRule k h) = Some (FlagRule k h)"
| "FlagRule_kind r = None"

fun ParameterRule_kind :: "rule \<Rightarrow> parameter_rule option" where
  "ParameterRule_kind (ParameterRule p) = Some p"
| "ParameterRule_kind r = None"

fun PositionalArgumentRule_kind :: "rule \<Rightarrow> argument_rule option" where
  "PositionalArgumentRule_kind (PositionalArgumentRule a) = Some a"
| "PositionalArgumentRule_kind r = None"

fun AllArgumentsRule_kind :: "rule \<Rightarrow> string option" where
  "AllArgumentsRule_kind (AllArgumentsRule n) = Some n"
| "AllArgumentsRule_kind r = None"

text \<open>\<open>sorted(keywords, key=lambda k: (len(k), k))\<close>.\<close>

definition sorted_keywords :: "string list \<Rightarrow> string list" where
  "sorted_keywords keywords = sort_key (\<lambda>k. (length k, k)) keywords"

text \<open>
  \<open>next(iter(rule.keywords))\<close>: the first keyword in the iteration order of the set;
  \<open>StopIteration\<close> when the set is empty. A rule without keywords raises
  \<open>AttributeError\<close>.
\<close>

fun subcommand_short_name :: "rule \<Rightarrow> string result" where
  "subcommand_short_name (SubcommandRule keywords h subrules) =
     (case keywords of [] \<Rightarrow> Inl StopIteration | k # _ \<Rightarrow> Inr k)"
| "subcommand_short_name (PrimaryOptionRule keywords h) =
     (case keywords of [] \<Rightarrow> Inl StopIteration | k # _ \<Rightarrow> Inr k)"
| "subcommand_short_name (FlagRule keywords h) =
     (case keywords of [] \<Rightarrow> Inl StopIteration | k # _ \<Rightarrow> Inr k)"
| "subcommand_short_name (ParameterRule p) =
     (case param_keywords p of [] \<Rightarrow> Inl StopIteration | k # _ \<Rightarrow> Inr k)"
| "subcommand_short_name (PositionalArgumentRule a) = Inl AttributeError"
| "subcommand_short_name (AllArgumentsRule n) = Inl AttributeError"

definition normalized_version :: "string \<Rightarrow> string" where
  "normalized_version version =
     (if take 1 version = ''v'' then version else ''v'' @ version)"

definition app_help_info :: "string option \<Rightarrow> string option \<Rightarrow> string option \<Rightarrow> string option" where
  "app_help_info app_name hlp version =
     (case truthy app_name of
        Some a \<Rightarrow>
          Some (a
                @ (case truthy version of Some v \<Rightarrow> '' '' @ normalized_version v | None \<Rightarrow> [])
                @ (case truthy hlp of Some h \<Rightarrow> '' - '' @ h | None \<Rightarrow> [])
                @ [CHR 0x0A])
      | None \<Rightarrow>
          (case truthy hlp of Some h \<Rightarrow> Some (h @ [CHR 0x0A]) | None \<Rightarrow> None))"

text \<open>\<open>max(map(lambda h: len(h.cmd), helps))\<close>: \<open>ValueError\<close> on an empty list.\<close>

definition max_name_width :: "option_help list \<Rightarrow> nat result" where
  "max_name_width helps =
     (case helps of
        [] \<Rightarrow> Inl ValueError
      | h # hs \<Rightarrow> Inr (foldl (\<lambda>m x. max m (length (cmd x))) (length (cmd h)) hs))"

text \<open>\<open>__helpers_output\<close> appends to \<open>out\<close>; the model returns the extended list.\<close>

definition helpers_output :: "option_help list \<Rightarrow> string list \<Rightarrow> string list result" where
  "helpers_output commands out =
     (case max_name_width commands of
        Inl e \<Rightarrow> Inl e
      | Inr padding \<Rightarrow>
          Inr (out @ map (\<lambda>helper.
                 let name_padded = ljust (cmd helper) padding
                 in (case truthy (help_text helper) of
                       Some h \<Rightarrow> ''  '' @ name_padded @ '' - '' @ h
                     | None \<Rightarrow> ''  '' @ name_padded)) commands))"

text \<open>
  \<open>max(names, key=lambda n: len(n))\<close>: the first element of greatest length in the
  iteration order; \<open>ValueError\<close> on an empty set.
\<close>

definition max_by_len :: "string list \<Rightarrow> string result" where
  "max_by_len names =
     (case names of
        [] \<Rightarrow> Inl ValueError
      | n # ns \<Rightarrow> Inr (foldl (\<lambda>best m. if length best < length m then m else best) n ns))"

text \<open>
  \<open>names_from_keywords\<close> (\<open>cliglue.parser.keyword\<close>) is not part of the sources at
  hand: it is a parameter \<open>nfk\<close> of the functions that call it, and returns the set
  of names as a list in iteration order.
\<close>

definition param_var_name :: "(string list \<Rightarrow> string list) \<Rightarrow> parameter_rule \<Rightarrow> string result" where
  "param_var_name nfk rule =
     (case truthy (name rule) of
        Some n \<Rightarrow> Inr (upper n)
      | None \<Rightarrow> (case max_by_len (nfk (param_keywords rule)) of
                    Inl e \<Rightarrow> Inl e
                  | Inr n \<Rightarrow> Inr (upper n)))"

definition argument_var_name :: "argument_rule \<Rightarrow> string" where
  "argument_var_name rule = upper (arg_name rule)"

definition subcommand_prefix :: "option_help option \<Rightarrow> string" where
  "subcommand_prefix helper = (case helper of None \<Rightarrow> [] | Some h \<Rightarrow> cmd h @ '' '')"

definition subcommand_help :: "string list \<Rightarrow> string option \<Rightarrow> option_help option \<Rightarrow> option_help" where
  "subcommand_help keywords hlp par =
     OptionHelp (subcommand_prefix par @ join ''|'' (sorted_keywords keywords)) hlp par"

definition primary_option_help :: "string list \<Rightarrow> string option \<Rightarrow> option_help" where
  "primary_option_help keywords hlp = OptionHelp (join '', '' (sorted_keywords keywords)) hlp None"

definition flag_help :: "string list \<Rightarrow> string option \<Rightarrow> option_help" where
  "flag_help keywords hlp = OptionHelp (join '', '' (sorted_keywords keywords)) hlp None"

definition parameter_help :: "(string list \<Rightarrow> string list) \<Rightarrow> parameter_rule \<Rightarrow> option_help result" where
  "parameter_help nfk rule =
     (case param_var_name nfk rule of
        Inl e \<Rightarrow> Inl e
      | Inr v \<Rightarrow> Inr (OptionHelp (join '', '' (sorted_keywords (param_keywords rule)) @ '' '' @ v)
                       (param_help rule) None))"

fun generate_option_help :: "(string list \<Rightarrow> string list) \<Rightarrow> rule \<Rightarrow> option_help option result" where
  "generate_option_help nfk (PrimaryOptionRule keywords h) = Inr (Some (primary_option_help keywords h))"
| "generate_option_help nfk (FlagRule keywords h) = Inr (Some (flag_help keywords h))"
| "generate_option_help nfk (ParameterRule p) =
     (case parameter_help nfk p of Inl e \<Rightarrow> Inl e | Inr h \<Rightarrow> Inr (Some h))"
| "generate_option_help nfk r = Inr None"

text \<open>
  The list comprehension stops at the first rule that raises; \<open>filter(lambda o: o, ...)\<close>
  drops the \<open>None\<close> entries.
\<close>

fun generate_options_helps :: "(string list \<Rightarrow> string list) \<Rightarrow> rule list \<Rightarrow> option_help list result" where
  "generate_options_helps nfk [] = Inr []"
| "generate_options_helps nfk (r # rules) =
     (case generate_option_help nfk r of
        Inl e \<Rightarrow> Inl e
      | Inr h \<Rightarrow> (case generate_options_helps nfk rules of
                    Inl e \<Rightarrow> Inl e
                  | Inr hs \<Rightarrow> Inr (case h of None \<Rightarrow> hs | Some x \<Rightarrow> x # hs)))"

fun generate_commands_helps :: "rule list \<Rightarrow> option_help option \<Rightarrow> option_help list" where
  "generate_commands_helps [] par = []"
| "generate_commands_helps (SubcommandRule keywords h subrules # rules) par =
     (let helper = subcommand_help keywords h par
      in helper # generate_commands_helps subrules (Some helper)
         @ generate_commands_helps rules par)"
| "generate_commands_helps (r # rules) par = generate_commands_helps rules par"

text \<open>
  \<open>sys.argv[0]\<close> is the parameter \<open>argv0\<close>. The list \<open>out\<close> is built in the order
  of the source; the only calls that can raise are the ones of
  \<open>_generate_options_helps\<close> and \<open>__helpers_output\<close>.
\<close>

definition generate_subcommand_help ::
  "(string list \<Rightarrow> string list) \<Rightarrow> string \<Rightarrow> rule list \<Rightarrow> rule list \<Rightarrow>
   string option \<Rightarrow> string option \<Rightarrow> string option \<Rightarrow> string list \<Rightarrow> string list result" where
  "generate_subcommand_help nfk argv0 subrules all_rules app_name version hlp precommands =
     (let command_rules = filter_rules subrules SubcommandRule_kind;
          flags = filter_rules all_rules FlagRule_kind;
          parameters = filter_rules all_rules ParameterRule_kind;
          primary_options = filter_rules all_rules PrimaryOptionRule_kind;
          pos_arguments = filter_rules all_rules PositionalArgumentRule_kind;
          all_args = filter_rules all_rules AllArgumentsRule_kind
      in case generate_options_helps nfk all_rules of
           Inl e \<Rightarrow> Inl e
         | Inr options \<Rightarrow>
            (let commands = generate_commands_helps command_rules None;
                 out1 = (case app_help_info app_name hlp version of
                           Some app_info \<Rightarrow> [app_info] | None \<Rightarrow> []);
                 app_bin_prefix = join '' '' (argv0 # precommands);
                 usage1 = app_bin_prefix @ (if commands \<noteq> [] then '' [COMMAND]'' else []);
                 usage2 = usage1 @ (if flags \<noteq> [] \<or> parameters \<noteq> [] \<or> primary_options \<noteq> []
                                    then '' [OPTIONS]'' else []);
                 usage3 = foldl (\<lambda>u rule.
                            let var_name = argument_var_name rule
                            in if required rule then u @ '' '' @ var_name
                               else u @ '' ['' @ var_name @ '']'') usage2 pos_arguments;
                 usage_syntax = foldl (\<lambda>u n. u @ '' ['' @ n @ ''...]'') usage3 all_args;
                 out2 = out1 @ [''Usage:'' @ [CHR 0x0A] @ ''  '' @ usage_syntax]
             in case (if options \<noteq> []
                      then helpers_output options (out2 @ [[CHR 0x0A] @ ''Options:''])
                      else Inr out2) of
                  Inl e \<Rightarrow> Inl e
                | Inr out3 \<Rightarrow>
                    if commands \<noteq> [] then
                      (case helpers_output commands (out3 @ [[CHR 0x0A] @ ''Commands:'']) of
                         Inl e \<Rightarrow> Inl e
                       | Inr out4 \<Rightarrow>
                           Inr (out4 @ [[CHR 0x0A] @ ''Run '' @ [CHR 0x22] @ app_bin_prefix
                                        @ '' COMMAND --help'' @ [CHR 0x22]
                                        @ '' for more information on a command.'']))
                    else Inr out3))"

text \<open>The list comprehension over the matched subcommands.\<close>

fun short_names :: "rule list \<Rightarrow> string list result" where
  "short_names [] = Inr []"
| "short_names (r # rs) =
     (case subcommand_short_name r of
        Inl e \<Rightarrow> Inl e
      | Inr n \<Rightarrow> (case short_names rs of Inl e \<Rightarrow> Inl e | Inr ns \<Rightarrow> Inr (n # ns)))"

text \<open>
  \<open>Parser\<close> (\<open>cliglue.parser.parser\<close>) is not part of the sources at hand: the
  outcome of \<open>Parser(rules, dry=True).parse_args(subargs)\<close> is given by the parameter
  \<open>parser\<close>. It returns an \<open>Optional[RunContext]\<close>; reading a field of \<open>None\<close>
  raises \<open>AttributeError\<close>. Only a \<open>CliError\<close> raised in the \<open>try\<close> block is caught.
\<close>

definition generate_help ::
  "(rule list \<Rightarrow> string list \<Rightarrow> 'a run_context_scheme option result) \<Rightarrow>
   (string list \<Rightarrow> string list) \<Rightarrow> string \<Rightarrow> rule list \<Rightarrow>
   string option \<Rightarrow> string option \<Rightarrow> string option \<Rightarrow> string list \<Rightarrow> string list result" where
  "generate_help parser nfk argv0 rules app_name version hlp subargs =
     (let attempt =
            (case parser rules subargs of
               Inl e \<Rightarrow> Inl e
             | Inr None \<Rightarrow> Inl AttributeError
             | Inr (Some run_context) \<Rightarrow>
                 (case short_names (active_subcommands run_context) of
                    Inl e \<Rightarrow> Inl e
                  | Inr precommands \<Rightarrow> Inr (active_rules run_context, precommands)))
      in case attempt of
           Inl (CliError e) \<Rightarrow>
             generate_subcommand_help nfk argv0 rules rules app_name version hlp []
         | Inl e \<Rightarrow> Inl e
         | Inr (all_rules, precommands) \<Rightarrow>
             generate_subcommand_help nfk argv0 rules all_rules app_name version hlp precommands)"

section \<open>The resolver of section 4.3\<close>

text \<open>
  Modelled from the spec: \<open>names_from_keywords\<close> (\<open>cliglue.parser.keyword\<close>) is not
  part of the sources at hand. Section 4.1: the plain name of a keyword alias is the
  alias without its leading marker characters (\<open>--\<close>, \<open>-\<close>); the names of a rule are
  the set of the plain names of its keywords.
\<close>

definition name_from_keyword :: "string \<Rightarrow> string" where
  "name_from_keyword keyword = dropWhile (\<lambda>c. c = CHR ''-'') keyword"

definition names_from_keywords :: "string list \<Rightarrow> string list" where
  "names_from_keywords keywords = remdups (map name_from_keyword keywords)"

text \<open>
  Modelled from the spec: \<open>validate_choice\<close> of section 4.2. The resolved choices are
  those of \<open>generate_value_choices\<close>; the producer is only called when
  \<open>strict_choices\<close> is set; the raw string is compared, before any coercion.
\<close>

definition validate_choice :: "'a value_rule_scheme \<Rightarrow> string \<Rightarrow> unit result" where
  "validate_choice rule raw =
     (if strict_choices rule then
        (case generate_value_choices rule of
           Inl e \<Rightarrow> Inl e
         | Inr cs \<Rightarrow> if cs \<noteq> [] \<and> VStr raw \<notin> set cs
                    then Inl (CliError ChoiceViolation) else Inr ())
      else Inr ())"

text \<open>
  Modelled from the spec: \<open>Parser\<close> (\<open>cliglue.parser.parser\<close>) is not part of the
  sources at hand. What follows is the token-consumption algorithm of section 4.3,
  step by step. It calls the functions of \<open>cliglue.parser.value\<close> above for
  coercion and choices. Where the section is silent, the model does this:
  \<^item> the rules reachable in a scope are the root rules and the children of every
    matched subcommand, since the tests of the repository bind a root parameter after
    a subcommand (\<open>test_param_with_2_args_with_action\<close>); positional arguments and the
    catch-all are those declared at the innermost scope;
  \<^item> a rule with an explicit name binds that name, a keyword rule without one binds
    the plain name of each of its keywords;
  \<^item> a variable was bound when the bindings hold a value for it: defaults are only
    applied at the end of input, so the satisfied names are the domain of the
    bindings;
  \<^item> validation comes before coercion.
\<close>

datatype mode = Strict | Dry

record parser_state = run_context +
  scope_rules :: "rule list"
  positional_cursor :: nat
  primary_activated :: "rule list"

definition initial :: "rule list \<Rightarrow> parser_state" where
  "initial rules =
     \<lparr>active_subcommands = [], active_rules = rules, bindings = Map.empty,
      scope_rules = rules, positional_cursor = 0, primary_activated = []\<rparr>"

fun rule_keywords :: "rule \<Rightarrow> string list" where
  "rule_keywords (SubcommandRule k h s) = k"
| "rule_keywords (PrimaryOptionRule k h) = k"
| "rule_keywords (FlagRule k h) = k"
| "rule_keywords (ParameterRule p) = param_keywords p"
| "rule_keywords r = []"

fun var_names :: "rule \<Rightarrow> string list" where
  "var_names (SubcommandRule k h s) = []"
| "var_names (PrimaryOptionRule k h) = names_from_keywords k"
| "var_names (FlagRule k h) = names_from_keywords k"
| "var_names (ParameterRule p) =
     (case name p of Some n \<Rightarrow> [n] | None \<Rightarrow> names_from_keywords (param_keywords p))"
| "var_names (PositionalArgumentRule a) = [arg_name a]"
| "var_names (AllArgumentsRule n) = [n]"

definition bind_all :: "string list \<Rightarrow> pyvalue \<Rightarrow> (string \<rightharpoonup> pyvalue) \<Rightarrow> (string \<rightharpoonup> pyvalue)" where
  "bind_all names v b = fold (\<lambda>n m. m(n \<mapsto> v)) names b"

text \<open>The sequence accumulated so far for a variable; empty when there is none.\<close>

definition accumulated :: "(string \<rightharpoonup> pyvalue) \<Rightarrow> string \<Rightarrow> pyvalue list" where
  "accumulated b n = (case b n of Some (VList xs) \<Rightarrow> xs | _ \<Rightarrow> [])"

definition append_all :: "string list \<Rightarrow> pyvalue list \<Rightarrow> (string \<rightharpoonup> pyvalue) \<Rightarrow> (string \<rightharpoonup> pyvalue)" where
  "append_all names vs b = fold (\<lambda>n m. m(n \<mapsto> VList (accumulated m n @ vs))) names b"

text \<open>Step 3: a multiple parameter appends, a single one overwrites (last occurrence wins).\<close>

definition bind_parameter :: "parameter_rule \<Rightarrow> pyvalue \<Rightarrow> (string \<rightharpoonup> pyvalue) \<Rightarrow> (string \<rightharpoonup> pyvalue)" where
  "bind_parameter p v b =
     (if multiple p then append_all (var_names (ParameterRule p)) [v] b
      else bind_all (var_names (ParameterRule p)) v b)"

definition read_value :: "'a value_rule_scheme \<Rightarrow> string \<Rightarrow> pyvalue result" where
  "read_value rule raw =
     (case validate_choice rule raw of
        Inl e \<Rightarrow> Inl e
      | Inr u \<Rightarrow> parse_value_rule rule raw)"

text \<open>The key of a token is its prefix up to the first \<open>=\<close>; the value is what follows.\<close>

definition split_equals :: "string \<Rightarrow> string \<times> string option" where
  "split_equals t =
     (if CHR ''='' \<in> set t
      then (takeWhile (\<lambda>c. c \<noteq> CHR ''='') t, Some (tl (dropWhile (\<lambda>c. c \<noteq> CHR ''='') t)))
      else (t, None))"

definition find_subcommand :: "rule list \<Rightarrow> string \<Rightarrow> rule option" where
  "find_subcommand rules t =
     List.find (\<lambda>r. t \<in> set (rule_keywords r)) (filter_rules rules SubcommandRule_kind)"

definition find_flag :: "rule list \<Rightarrow> string \<Rightarrow> rule option" where
  "find_flag rules t =
     List.find (\<lambda>r. t \<in> set (rule_keywords r))
       (filter (\<lambda>r. is_FlagRule r \<or> is_PrimaryOptionRule r) rules)"

definition find_parameter :: "rule list \<Rightarrow> string \<Rightarrow> parameter_rule option" where
  "find_parameter rules t =
     List.find (\<lambda>p. t \<in> set (param_keywords p)) (filter_rules rules ParameterRule_kind)"

text \<open>A flag or primary option matches the token or its key.\<close>

definition match_flag :: "rule list \<Rightarrow> string \<Rightarrow> rule option" where
  "match_flag rules t =
     (case find_flag rules t of
        Some r \<Rightarrow> Some r
      | None \<Rightarrow> find_flag rules (fst (split_equals t)))"

text \<open>
  A parameter matches the token, and then takes its value from the next token, or
  matches the key of a token with \<open>=\<close>, and then takes the embedded value.
\<close>

definition match_parameter :: "rule list \<Rightarrow> string \<Rightarrow> (parameter_rule \<times> string option) option" where
  "match_parameter rules t =
     (case find_parameter rules t of
        Some p \<Rightarrow> Some (p, None)
      | None \<Rightarrow>
          (case split_equals t of
             (k, Some v) \<Rightarrow> (case find_parameter rules k of
                               Some p \<Rightarrow> Some (p, Some v)
                             | None \<Rightarrow> None)
           | (k, None) \<Rightarrow> None))"

definition push_subcommand :: "rule \<Rightarrow> parser_state \<Rightarrow> parser_state" where
  "push_subcommand r c =
     (case r of
        SubcommandRule k h subrules \<Rightarrow>
          c\<lparr>active_subcommands := active_subcommands c @ [r],
            active_rules := active_rules c @ subrules,
            scope_rules := subrules,
            positional_cursor := 0\<rparr>
      | _ \<Rightarrow> c)"

definition bind_flag :: "rule \<Rightarrow> parser_state \<Rightarrow> parser_state" where
  "bind_flag r c =
     c\<lparr>bindings := bind_all (var_names r) (VBool True) (bindings c),
       primary_activated := (if is_PrimaryOptionRule r then primary_activated c @ [r]
                             else primary_activated c)\<rparr>"

text \<open>Steps 4 to 6, for a token that is no subcommand, flag or parameter.\<close>

datatype outcome = Continue parser_state | Finished parser_state | Failed exn

definition positional_or_rest :: "mode \<Rightarrow> parser_state \<Rightarrow> string \<Rightarrow> string list \<Rightarrow> outcome" where
  "positional_or_rest m c t ts =
     (case drop (positional_cursor c) (filter_rules (scope_rules c) PositionalArgumentRule_kind) of
        a # _ \<Rightarrow>
          (case read_value a t of
             Inl e \<Rightarrow> Failed e
           | Inr v \<Rightarrow> Continue (c\<lparr>bindings := (bindings c)(arg_name a \<mapsto> v),
                                  positional_cursor := positional_cursor c + 1\<rparr>))
      | [] \<Rightarrow>
          (case filter_rules (scope_rules c) AllArgumentsRule_kind of
             n # _ \<Rightarrow>
               Finished (c\<lparr>bindings := append_all [n] (map VStr (t # ts)) (bindings c)\<rparr>)
           | [] \<Rightarrow> (case m of
                      Strict \<Rightarrow> Failed (CliError UnknownToken)
                    | Dry \<Rightarrow> Continue c)))"

fun parse_tokens :: "mode \<Rightarrow> parser_state \<Rightarrow> string list \<Rightarrow> parser_state result" where
  "parse_tokens m c [] = Inr c"
| "parse_tokens m c (t # ts) =
     (case find_subcommand (active_rules c) t of
        Some r \<Rightarrow> parse_tokens m (push_subcommand r c) ts
      | None \<Rightarrow>
     (case match_flag (active_rules c) t of
        Some r \<Rightarrow> parse_tokens m (bind_flag r c) ts
      | None \<Rightarrow>
     (case match_parameter (active_rules c) t of
        Some (p, Some v) \<Rightarrow>
          (case read_value p v of
             Inl e \<Rightarrow> Inl e
           | Inr x \<Rightarrow> parse_tokens m (c\<lparr>bindings := bind_parameter p x (bindings c)\<rparr>) ts)
      | Some (p, None) \<Rightarrow>
          (case ts of
             [] \<Rightarrow> Inl (CliError MissingValue)
           | v # ts' \<Rightarrow>
               (case read_value p v of
                  Inl e \<Rightarrow> Inl e
                | Inr x \<Rightarrow> parse_tokens m (c\<lparr>bindings := bind_parameter p x (bindings c)\<rparr>) ts'))
      | None \<Rightarrow>
          (case positional_or_rest m c t ts of
             Continue c' \<Rightarrow> parse_tokens m c' ts
           | Finished c' \<Rightarrow> Inr c'
           | Failed e \<Rightarrow> Inl e))))"

text \<open>End-of-input finalization (strict mode only).\<close>

fun rule_required :: "rule \<Rightarrow> bool" where
  "rule_required (ParameterRule p) = required p"
| "rule_required (PositionalArgumentRule a) = required a"
| "rule_required r = False"

definition rule_bound :: "(string \<rightharpoonup> pyvalue) \<Rightarrow> rule \<Rightarrow> bool" where
  "rule_bound b r = list_ex (\<lambda>n. b n \<noteq> None) (var_names r)"

definition default_value :: "pyvalue option \<Rightarrow> pyvalue" where
  "default_value d = (case d of None \<Rightarrow> VNone | Some v \<Rightarrow> v)"

text \<open>
  What an unbound rule is bound to at the end of input: a parameter or positional
  argument receives its declared default (\<open>None\<close> when it declares none); a multiple
  parameter receives the empty sequence, whatever its default (section 3). The other
  rules declare no default and stay unbound.
\<close>

fun unbound_value :: "rule \<Rightarrow> pyvalue option" where
  "unbound_value (ParameterRule p) =
     Some (if multiple p then VList [] else default_value (default p))"
| "unbound_value (PositionalArgumentRule a) = Some (default_value (default a))"
| "unbound_value r = None"

definition apply_default :: "rule \<Rightarrow> (string \<rightharpoonup> pyvalue) \<Rightarrow> (string \<rightharpoonup> pyvalue)" where
  "apply_default r b =
     (case unbound_value r of
        None \<Rightarrow> b
      | Some d \<Rightarrow> if rule_bound b r then b else bind_all (var_names r) d b)"

definition finalize :: "parser_state \<Rightarrow> parser_state result" where
  "finalize c =
     (if list_ex (\<lambda>r. rule_required r \<and> \<not> rule_bound (bindings c) r) (active_rules c)
      then Inl (CliError MissingRequiredArgument)
      else Inr (c\<lparr>bindings := fold apply_default (active_rules c) (bindings c)\<rparr>))"

definition parse_args :: "mode \<Rightarrow> rule list \<Rightarrow> string list \<Rightarrow> parser_state result" where
  "parse_args m rules args =
     (case parse_tokens m (initial rules) args of
        Inl e \<Rightarrow> Inl e
      | Inr c \<Rightarrow> (case m of Dry \<Rightarrow> Inr c | Strict \<Rightarrow> finalize c))"

text \<open>The value bound to a variable by a resolution pass, when the pass succeeds.\<close>

definition binding_of :: "parser_state result \<Rightarrow> string \<Rightarrow> pyvalue option" where
  "binding_of res n = (case res of Inl e \<Rightarrow> None | Inr c \<Rightarrow> bindings c n)"





text \<open>
  Well-formed rule lists: the keywords are unique (section 3) and none contains the
  character \<open>=\<close>, which separates a key from its value; the variable names are
  unique.
\<close>

definition wf_keywords :: "rule list \<Rightarrow> bool" where
  "wf_keywords rules =
     (distinct (concat (map rule_keywords rules))
      \<and> list_all (\<lambda>k. CHR ''='' \<notin> set k) (concat (map rule_keywords rules)))"

definition wf_names :: "rule list \<Rightarrow> bool" where
  "wf_names rules = distinct (concat (map var_names rules))"

section \<open>Value coercion and choices\<close>

lemmas py_int_defs = py_int_def strip_def is_space_def is_digit_def digits_value_def

text \<open>
  Claim C1. Without a declared type, value coercion returns the raw string unchanged;
  with a declared type or converter it returns the result of calling it on the raw
  string. With \<open>type=int\<close> the token \<open>42\<close> becomes the integer 42, not the string.
\<close>

theorem parse_value_rule_coerces:
  "parse_value_rule rule arg
     = (case type rule of None \<Rightarrow> Inr (VStr arg) | Some ty \<Rightarrow> call ty arg)
   \<and> parse_value_rule (rule\<lparr>type := Some (Callable py_int)\<rparr>) ''42'' = Inr (VInt 42)
   \<and> parse_value_rule (rule\<lparr>type := Some (Callable py_int)\<rparr>) ''42'' \<noteq> Inr (VStr ''42'')"
  by (simp add: parse_value_rule_def parse_typed_value_def py_int_defs split: option.splits)

text \<open>
  Claim C2, as stated, fails: the exception that \<open>int\<close> raises on \<open>abc\<close> leaves
  \<open>parse_typed_value\<close> as the \<open>ValueError\<close> it is, not as a \<open>ConversionError\<close>.
\<close>

theorem parse_typed_value_not_conversion_error:
  "call (Callable py_int) ''abc'' = Inl ValueError
   \<and> parse_typed_value (Some (Callable py_int)) ''abc'' = Inl ValueError
   \<and> parse_typed_value (Some (Callable py_int)) ''abc'' \<noteq> Inl (CliError ConversionError)"
  by (simp add: parse_typed_value_def py_int_defs)

text \<open>
  Claim C2, amended. When calling the declared type or converter on the raw string
  raises an exception, value coercion raises that same exception, unchanged.
\<close>

theorem parse_typed_value_propagates:
  "call ty arg = Inl e \<Longrightarrow> parse_typed_value (Some ty) arg = Inl e"
  by (simp add: parse_typed_value_def)

theorem parse_typed_value_propagates_witness:
  "call (Callable py_int) ''4x'' = Inl ValueError
   \<and> parse_typed_value (Some (Callable py_int)) ''4x'' = Inl ValueError"
proof -
  have h: "call (Callable py_int) ''4x'' = Inl ValueError"
    by (simp add: py_int_defs)
  show ?thesis
    using h parse_typed_value_propagates [OF h] by simp
qed


section \<open>Keyword ordering and the short name of a subcommand\<close>

text \<open>
  The display order of \<open>sorted_keywords\<close>: shortest first, ties alphabetical; the
  result does not depend on the iteration order of the set.
\<close>

lemma sorted_keywords_sorted:
  "sorted (map (\<lambda>k. (length k, k)) (sorted_keywords ks))"
  by (simp add: sorted_keywords_def)

lemma sorted_keywords_set:
  "set (sorted_keywords ks) = set ks \<and> length (sorted_keywords ks) = length ks"
  by (simp add: sorted_keywords_def)

lemma sorted_keywords_order_independent:
  assumes "distinct ks" "distinct ks'" "set ks = set ks'"
  shows "sorted_keywords ks = sorted_keywords ks'"
proof -
  let ?f = "\<lambda>k::string. (length k, k)"
  have inj: "inj ?f" by (simp add: inj_on_def)
  have inj_on: "inj_on ?f A" for A by (simp add: inj_on_def)
  have "map ?f (sorted_keywords ks) = map ?f (sorted_keywords ks')"
  proof (rule sorted_distinct_set_unique)
    show "distinct (map ?f (sorted_keywords ks))"
      using assms(1) inj_on by (simp add: sorted_keywords_def distinct_map)
    show "distinct (map ?f (sorted_keywords ks'))"
      using assms(2) inj_on by (simp add: sorted_keywords_def distinct_map)
    show "set (map ?f (sorted_keywords ks)) = set (map ?f (sorted_keywords ks'))"
      using assms(3) by (simp add: sorted_keywords_def)
  qed (simp_all add: sorted_keywords_sorted)
  then show ?thesis
    using inj by (simp add: inj_map_eq_map)
qed

text \<open>
  Claim C3. The keywords have one display order, shortest first and then
  alphabetical (the three lemmas above), and the scope path of the help is meant to
  name each matched subcommand by the first keyword of that order. The code takes
  the first keyword in the iteration order of the set instead: for the keywords
  \<open>run\<close> and \<open>r\<close>, iterated in that order, the short name is \<open>run\<close>, while the
  shortest keyword is \<open>r\<close>.
\<close>

theorem subcommand_short_name_not_shortest:
  "subcommand_short_name (SubcommandRule [''run'', ''r''] None []) = Inr ''run''
   \<and> sorted_keywords [''run'', ''r''] = [''r'', ''run'']
   \<and> short_names [SubcommandRule [''run'', ''r''] None []] = Inr [''run'']"
  by (simp add: sorted_keywords_def)

section \<open>Help generation\<close>

lemma max_by_len_longest:
  "names \<noteq> [] \<Longrightarrow>
   \<exists>n \<in> set names. max_by_len names = Inr n \<and> (\<forall>m \<in> set names. length m \<le> length n)"
proof -
  have scan: "\<And>b. let r = foldl (\<lambda>best m. if length best < length m then m else best) b ns
            in r \<in> insert b (set ns) \<and> length b \<le> length r
               \<and> (\<forall>m \<in> set ns. length m \<le> length r)" for ns :: "string list"
  proof (induction ns)
    case Nil
    show ?case by simp
  next
    case (Cons a ns)
    show ?case
      using Cons.IH [of "if length b < length a then a else b"]
      by (auto simp: Let_def)
  qed
  assume "names \<noteq> []"
  then obtain n ns where ns: "names = n # ns" by (cases names) auto
  show ?thesis
    using scan [of n ns] by (auto simp: ns max_by_len_def Let_def)
qed

lemma generate_option_help_exn:
  "generate_option_help nfk r = Inl e \<Longrightarrow> e = ValueError"
  by (cases r) (auto simp: parameter_help_def param_var_name_def max_by_len_def
      split: sum.splits option.splits list.splits)

lemma generate_options_helps_exn:
  "generate_options_helps nfk rules = Inl e \<Longrightarrow> e = ValueError"
  by (induction rules) (auto split: sum.splits dest: generate_option_help_exn)

lemma helpers_output_exn:
  "helpers_output hs out = Inl e \<Longrightarrow> e = ValueError"
  by (auto simp: helpers_output_def max_name_width_def split: sum.splits list.splits)

lemma generate_subcommand_help_exn:
  "generate_subcommand_help nfk argv0 subrules all_rules app_name version hlp precommands = Inl e
   \<Longrightarrow> e = ValueError"
  unfolding generate_subcommand_help_def Let_def
  by (auto split: sum.splits if_splits dest: generate_options_helps_exn helpers_output_exn)

lemma subcommand_short_name_exn:
  "subcommand_short_name r = Inl e \<Longrightarrow> e = StopIteration \<or> e = AttributeError"
  by (cases r) (auto split: list.splits)

lemma short_names_exn:
  "short_names rs = Inl e \<Longrightarrow> e = StopIteration \<or> e = AttributeError"
  by (induction rs) (auto split: sum.splits dest: subcommand_short_name_exn)

text \<open>
  Claim C9. \<open>generate_help\<close> never raises a \<open>CliError\<close>: when the dry resolution pass
  raises one, the help of the root rules is rendered, with no subcommand in front.
  This holds for every outcome of the parser.
\<close>

theorem generate_help_no_cli_error:
  "(\<forall>e. parser rules subargs = Inl (CliError e) \<longrightarrow>
        generate_help parser nfk argv0 rules app_name version hlp subargs
        = generate_subcommand_help nfk argv0 rules rules app_name version hlp [])
   \<and> (\<forall>e. generate_help parser nfk argv0 rules app_name version hlp subargs \<noteq> Inl (CliError e))"
proof (intro conjI allI impI)
  fix e assume "parser rules subargs = Inl (CliError e)"
  then show "generate_help parser nfk argv0 rules app_name version hlp subargs
        = generate_subcommand_help nfk argv0 rules rules app_name version hlp []"
    by (simp add: generate_help_def)
next
  fix e
  show "generate_help parser nfk argv0 rules app_name version hlp subargs \<noteq> Inl (CliError e)"
  proof
    assume "generate_help parser nfk argv0 rules app_name version hlp subargs = Inl (CliError e)"
    then show False
      unfolding generate_help_def Let_def
      by (auto split: sum.splits option.splits exn.splits prod.splits
               dest: generate_subcommand_help_exn short_names_exn)
  qed
qed

lemmas help_defs =
  generate_subcommand_help_def filter_rules_def List.map_filter_def app_help_info_def
  truthy_def normalized_version_def helpers_output_def max_name_width_def ljust_def
  flag_help_def primary_option_help_def parameter_help_def param_var_name_def
  max_by_len_def subcommand_help_def subcommand_prefix_def argument_var_name_def
  sorted_keywords_def upper_def upper_char_def names_from_keywords_def name_from_keyword_def
  char_of_def bit_0

theorem generate_help_no_cli_error_witness:
  "generate_help (\<lambda>rules args. (Inl (CliError UnknownToken) :: run_context option result))
     names_from_keywords ''app'' [FlagRule [''--force'', ''-f''] (Some ''do it'')]
     (Some ''App'') None None [''--unknown'']
   = Inr [''App'' @ [CHR 0x0A], ''Usage:'' @ [CHR 0x0A] @ ''  app [OPTIONS]'',
          [CHR 0x0A] @ ''Options:'', ''  -f, --force - do it'']"
  using generate_help_no_cli_error
    [of "\<lambda>rules args. (Inl (CliError UnknownToken) :: run_context option result)"
        "[FlagRule [''--force'', ''-f''] (Some ''do it'')]" "[''--unknown'']"
        names_from_keywords "''app''" "Some ''App''" None None]
  by (simp add: help_defs)

text \<open>
  Claim C10. The placeholder in the help line of a parameter is its explicit name in
  upper case when it has one; otherwise it is the plain name of a keyword of greatest
  plain-name length, in upper case, and not the shortest alias that comes first in
  the display order. \<open>nfk\<close> is any function returning the set of plain names, in any
  iteration order.
\<close>

theorem param_var_name_longest:
  assumes "set (nfk (param_keywords rule)) = set (names_from_keywords (param_keywords rule))"
  shows "(\<forall>n. truthy (name rule) = Some n \<longrightarrow> param_var_name nfk rule = Inr (upper n))
     \<and> (truthy (name rule) = None \<longrightarrow> param_keywords rule \<noteq> [] \<longrightarrow>
          (\<exists>k \<in> set (param_keywords rule).
              param_var_name nfk rule = Inr (upper (name_from_keyword k))
              \<and> (\<forall>k' \<in> set (param_keywords rule).
                    length (name_from_keyword k') \<le> length (name_from_keyword k))))
     \<and> (\<forall>v. param_var_name nfk rule = Inr v \<longrightarrow>
           parameter_help nfk rule
           = Inr (OptionHelp (join '', '' (sorted_keywords (param_keywords rule)) @ '' '' @ v)
                    (param_help rule) None))"
proof (intro conjI allI impI)
  fix n assume "truthy (name rule) = Some n"
  then show "param_var_name nfk rule = Inr (upper n)"
    by (simp add: param_var_name_def)
next
  assume t: "truthy (name rule) = None" and ne: "param_keywords rule \<noteq> []"
  have s: "set (nfk (param_keywords rule)) = name_from_keyword ` set (param_keywords rule)"
    using assms by (simp add: names_from_keywords_def)
  with ne have "nfk (param_keywords rule) \<noteq> []" by auto
  from max_by_len_longest [OF this]
  obtain n where n: "n \<in> set (nfk (param_keywords rule))"
    "max_by_len (nfk (param_keywords rule)) = Inr n"
    "\<forall>m \<in> set (nfk (param_keywords rule)). length m \<le> length n" by blast
  from n(1) s obtain k where k: "k \<in> set (param_keywords rule)" "n = name_from_keyword k"
    by auto
  show "\<exists>k \<in> set (param_keywords rule).
              param_var_name nfk rule = Inr (upper (name_from_keyword k))
              \<and> (\<forall>k' \<in> set (param_keywords rule).
                    length (name_from_keyword k') \<le> length (name_from_keyword k))"
    using k n(2,3) t s by (intro bexI [of _ k]) (auto simp: param_var_name_def)
next
  fix v assume "param_var_name nfk rule = Inr v"
  then show "parameter_help nfk rule
           = Inr (OptionHelp (join '', '' (sorted_keywords (param_keywords rule)) @ '' '' @ v)
                    (param_help rule) None)"
    by (simp add: parameter_help_def)
qed

theorem param_var_name_longest_witness:
  "truthy (name \<lparr>type = None, default = None, required = False, choices = None,
        strict_choices = False, param_keywords = [''--param'', ''-p''], name = None,
        multiple = False, param_help = None\<rparr>) = None
   \<and> param_var_name (\<lambda>ks. rev (names_from_keywords ks))
        \<lparr>type = None, default = None, required = False, choices = None,
        strict_choices = False, param_keywords = [''--param'', ''-p''], name = None,
        multiple = False, param_help = None\<rparr> = Inr ''PARAM''
   \<and> parameter_help (\<lambda>ks. rev (names_from_keywords ks))
        \<lparr>type = None, default = None, required = False, choices = None,
        strict_choices = False, param_keywords = [''--param'', ''-p''], name = None,
        multiple = False, param_help = None\<rparr>
       = Inr (OptionHelp ''-p, --param PARAM'' None None)
   \<and> param_var_name (\<lambda>ks. rev (names_from_keywords ks))
        \<lparr>type = None, default = None, required = False, choices = None,
        strict_choices = False, param_keywords = [''--param'', ''-p''], name = Some ''value'',
        multiple = False, param_help = None\<rparr> = Inr ''VALUE''"
  using param_var_name_longest
    [of "\<lambda>ks. rev (names_from_keywords ks)"
        "\<lparr>type = None, default = None, required = False, choices = None,
        strict_choices = False, param_keywords = [''--param'', ''-p''], name = None,
        multiple = False, param_help = None\<rparr>"]
     param_var_name_longest
    [of "\<lambda>ks. rev (names_from_keywords ks)"
        "\<lparr>type = None, default = None, required = False, choices = None,
        strict_choices = False, param_keywords = [''--param'', ''-p''], name = Some ''value'',
        multiple = False, param_help = None\<rparr>"]
  by (simp add: help_defs char_of_def bit_0)

section \<open>The resolver: matching a parameter\<close>

text \<open>
  The equation of \<open>parse_tokens\<close> for a non-empty token list is unfolded by hand.
\<close>

declare parse_tokens.simps(2) [simp del]

text \<open>Under unique keywords, a keyword of a parameter finds that parameter and nothing else.\<close>

lemma keyword_owner:
  "distinct (concat (map rule_keywords rules)) \<Longrightarrow> r \<in> set rules \<Longrightarrow> r' \<in> set rules \<Longrightarrow>
   k \<in> set (rule_keywords r) \<Longrightarrow> k \<in> set (rule_keywords r') \<Longrightarrow> r = r'"
  by (induction rules) auto

lemma set_filter_rules:
  "set (filter_rules rules kind) = {y. \<exists>r \<in> set rules. kind r = Some y}"
  by (induction rules) (auto simp: filter_rules_def List.map_filter_simps split: option.splits)

lemma ParameterRule_kind_Some [simp]: "ParameterRule_kind r = Some p \<longleftrightarrow> r = ParameterRule p"
  by (cases r) auto

lemma SubcommandRule_kind_Some: "SubcommandRule_kind r = Some s \<Longrightarrow> r = s \<and> is_SubcommandRule r"
  by (cases r) auto

lemma find_parameter_owner:
  assumes "wf_keywords rules" "ParameterRule p \<in> set rules" "kw \<in> set (param_keywords p)"
  shows "find_parameter rules kw = Some p"
proof (cases "find_parameter rules kw")
  case None
  then show ?thesis
    using assms(2,3) by (auto simp: find_parameter_def find_None_iff set_filter_rules)
next
  case (Some q)
  then have "ParameterRule q \<in> set rules" "kw \<in> set (param_keywords q)"
    by (auto simp: find_parameter_def find_Some_iff set_filter_rules dest!: nth_mem)
  with assms have "ParameterRule q = ParameterRule p"
    by (intro keyword_owner [of rules _ _ kw]) (auto simp: wf_keywords_def)
  with Some show ?thesis by simp
qed

lemma find_subcommand_other:
  assumes "wf_keywords rules" "ParameterRule p \<in> set rules" "kw \<in> set (param_keywords p)"
  shows "find_subcommand rules kw = None"
proof (cases "find_subcommand rules kw")
  case (Some r)
  then have "r \<in> set rules" "is_SubcommandRule r" "kw \<in> set (rule_keywords r)"
    by (auto simp: find_subcommand_def find_Some_iff set_filter_rules
             dest!: nth_mem SubcommandRule_kind_Some)
  with assms have "r = ParameterRule p"
    by (intro keyword_owner [of rules _ _ kw]) (auto simp: wf_keywords_def)
  with \<open>is_SubcommandRule r\<close> show ?thesis by simp
qed simp

lemma find_flag_other:
  assumes "wf_keywords rules" "ParameterRule p \<in> set rules" "kw \<in> set (param_keywords p)"
  shows "find_flag rules kw = None"
proof (cases "find_flag rules kw")
  case (Some r)
  then have "r \<in> set rules" "is_FlagRule r \<or> is_PrimaryOptionRule r" "kw \<in> set (rule_keywords r)"
    by (auto simp: find_flag_def find_Some_iff dest!: nth_mem)
  with assms have "r = ParameterRule p"
    by (intro keyword_owner [of rules _ _ kw]) (auto simp: wf_keywords_def)
  with \<open>is_FlagRule r \<or> is_PrimaryOptionRule r\<close> show ?thesis by auto
qed simp

lemma no_keyword_with_equals:
  assumes "wf_keywords rules" "CHR ''='' \<in> set t"
  shows "find_subcommand rules t = None" "find_flag rules t = None" "find_parameter rules t = None"
proof -
  have *: "\<And>r. r \<in> set rules \<Longrightarrow> t \<notin> set (rule_keywords r)"
    using assms by (auto simp: wf_keywords_def list_all_iff)
  show "find_subcommand rules t = None"
    using * by (auto simp: find_subcommand_def find_None_iff set_filter_rules
                     dest!: SubcommandRule_kind_Some)
  show "find_flag rules t = None"
    using * by (auto simp: find_flag_def find_None_iff)
  show "find_parameter rules t = None"
    using * by (fastforce simp: find_parameter_def find_None_iff set_filter_rules)
qed

lemma keyword_without_equals:
  assumes "wf_keywords rules" "ParameterRule p \<in> set rules" "kw \<in> set (param_keywords p)"
  shows "CHR ''='' \<notin> set kw"
  using assms by (fastforce simp: wf_keywords_def list_all_iff)

lemma split_equals_embedded:
  "CHR ''='' \<notin> set kw \<Longrightarrow> split_equals (kw @ ''='' @ v) = (kw, Some v)"
  by (induction kw) (auto simp: split_equals_def)

lemma split_equals_plain:
  "CHR ''='' \<notin> set kw \<Longrightarrow> split_equals kw = (kw, None)"
  by (simp add: split_equals_def)

lemma parse_tokens_equals_form:
  assumes "wf_keywords (active_rules c)" "ParameterRule p \<in> set (active_rules c)"
    "kw \<in> set (param_keywords p)"
  shows "parse_tokens m c ((kw @ ''='' @ v) # ts)
         = (case read_value p v of
              Inl e \<Rightarrow> Inl e
            | Inr x \<Rightarrow> parse_tokens m (c\<lparr>bindings := bind_parameter p x (bindings c)\<rparr>) ts)"
proof -
  have eq: "CHR ''='' \<in> set (kw @ ''='' @ v)" by simp
  note ne = keyword_without_equals [OF assms]
  show ?thesis
    using no_keyword_with_equals [OF assms(1) eq] find_flag_other [OF assms]
      find_parameter_owner [OF assms] split_equals_embedded [OF ne, of v]
    by (simp add: parse_tokens.simps match_flag_def match_parameter_def)
qed

lemma parse_tokens_two_tokens:
  assumes "wf_keywords (active_rules c)" "ParameterRule p \<in> set (active_rules c)"
    "kw \<in> set (param_keywords p)"
  shows "parse_tokens m c (kw # v # ts)
         = (case read_value p v of
              Inl e \<Rightarrow> Inl e
            | Inr x \<Rightarrow> parse_tokens m (c\<lparr>bindings := bind_parameter p x (bindings c)\<rparr>) ts)"
proof -
  note ne = keyword_without_equals [OF assms]
  show ?thesis
    using find_subcommand_other [OF assms] find_flag_other [OF assms]
      find_parameter_owner [OF assms] split_equals_plain [OF ne]
    by (simp add: parse_tokens.simps match_flag_def match_parameter_def)
qed

section \<open>The resolver: bindings and defaults\<close>

lemma bind_all_apply:
  "bind_all names v b n = (if n \<in> set names then Some v else b n)"
  unfolding bind_all_def by (induction names arbitrary: b) auto








lemma fold_apply_default_keeps:
  "b n = Some v \<Longrightarrow> fold apply_default rules b n = Some v"
proof (induction rules arbitrary: b)
  case Nil
  then show ?case by simp
next
  case (Cons r rules)
  have "apply_default r b n = Some v"
    using Cons.prems
    by (auto simp: apply_default_def rule_bound_def list_ex_iff bind_all_apply
             split: option.splits)
  then have "fold apply_default rules (apply_default r b) n = Some v"
    by (rule Cons.IH)
  then show ?case by simp
qed

lemma fold_apply_default_binds:
  assumes "wf_names rules" "r \<in> set rules" "unbound_value r = Some d"
    "\<not> rule_bound b r" "n \<in> set (var_names r)"
  shows "fold apply_default rules b n = Some d"
  using assms
proof (induction rules arbitrary: b)
  case Nil
  then show ?case by simp
next
  case (Cons r' rules)
  show ?case
  proof (cases "r = r'")
    case True
    have "apply_default r' b n = Some d"
      using Cons.prems True by (simp add: apply_default_def bind_all_apply)
    then have "fold apply_default rules (apply_default r' b) n = Some d"
      by (rule fold_apply_default_keeps)
    then show ?thesis by simp
  next
    case False
    then have mem: "r \<in> set rules" using Cons.prems by simp
    have disj: "set (var_names r) \<inter> set (var_names r') = {}"
      using Cons.prems(1) mem by (auto simp: wf_names_def)
    have "\<not> rule_bound (apply_default r' b) r"
      using Cons.prems(4) disj
      by (auto simp: apply_default_def rule_bound_def list_ex_iff bind_all_apply
               split: option.splits)
    moreover have "wf_names rules" using Cons.prems(1) by (simp add: wf_names_def)
    ultimately show ?thesis
      using Cons.IH [OF _ mem Cons.prems(3) _ Cons.prems(5)] by simp
  qed
qed

lemma initial_simps [simp]:
  "active_rules (initial rules) = rules" "bindings (initial rules) = Map.empty"
  by (simp_all add: initial_def)

lemmas parser_defs =
  parse_args_def initial_def parse_tokens.simps(2) find_subcommand_def find_flag_def
  find_parameter_def filter_rules_def List.map_filter_def match_flag_def match_parameter_def
  split_equals_def read_value_def validate_choice_def generate_value_choices_def
  parse_value_rule_def parse_typed_value_def bind_parameter_def bind_all_def append_all_def
  accumulated_def finalize_def rule_bound_def apply_default_def default_value_def
  names_from_keywords_def name_from_keyword_def binding_of_def wf_keywords_def wf_names_def
  positional_or_rest_def

text \<open>
  With \<open>type=int\<close>, the resolver binds the token \<open>42\<close> to the integer 42
  (\<open>test_int_type_param\<close>).
\<close>

lemma int_parameter_binds_integer:
  "binding_of (parse_args Strict
     [ParameterRule \<lparr>type = Some (Callable py_int), default = None, required = False,
        choices = None, strict_choices = False, param_keywords = [''--param''], name = None,
        multiple = False, param_help = None\<rparr>]
     [''--param'', ''42'']) ''param'' = Some (VInt 42)"
  by (simp add: parser_defs py_int_defs)

section \<open>The resolver: claims\<close>

text \<open>
  Claim C4. For a parameter with \<open>strict_choices\<close> and a non-empty resolved choice
  list, validation fails with \<open>ChoiceViolation\<close> when the raw value is not in the list
  and passes when it is; the raw string is compared, before coercion. Resolution of
  either token form fails with \<open>ChoiceViolation\<close> in the first case and goes on to
  coercion and binding in the second.
\<close>

theorem validate_choice_strict:
  assumes "strict_choices p" "generate_value_choices p = Inr cs" "cs \<noteq> []"
    and "wf_keywords (active_rules c)" "ParameterRule p \<in> set (active_rules c)"
    "kw \<in> set (param_keywords p)"
  shows "validate_choice p raw
           = (if VStr raw \<in> set cs then Inr () else Inl (CliError ChoiceViolation))
     \<and> (VStr raw \<notin> set cs \<longrightarrow>
          parse_tokens m c ((kw @ ''='' @ raw) # ts) = Inl (CliError ChoiceViolation)
          \<and> parse_tokens m c (kw # raw # ts) = Inl (CliError ChoiceViolation))
     \<and> (VStr raw \<in> set cs \<longrightarrow>
          parse_tokens m c ((kw @ ''='' @ raw) # ts)
          = (case parse_value_rule p raw of
               Inl e \<Rightarrow> Inl e
             | Inr x \<Rightarrow> parse_tokens m (c\<lparr>bindings := bind_parameter p x (bindings c)\<rparr>) ts)
          \<and> parse_tokens m c (kw # raw # ts)
          = (case parse_value_rule p raw of
               Inl e \<Rightarrow> Inl e
             | Inr x \<Rightarrow> parse_tokens m (c\<lparr>bindings := bind_parameter p x (bindings c)\<rparr>) ts))"
proof -
  have v: "validate_choice p raw
           = (if VStr raw \<in> set cs then Inr () else Inl (CliError ChoiceViolation))"
    using assms(1-3) by (simp add: validate_choice_def)
  show ?thesis
    unfolding parse_tokens_equals_form [OF assms(4-6)] parse_tokens_two_tokens [OF assms(4-6)]
      read_value_def v
    by simp
qed

theorem validate_choice_strict_witness:
  "parse_args Strict
     [ParameterRule \<lparr>type = None, default = None, required = False,
        choices = Some (ChoiceList [VStr ''42'']), strict_choices = True,
        param_keywords = [''--param''], name = None, multiple = False, param_help = None\<rparr>]
     [''--param=4''] = Inl (CliError ChoiceViolation)
   \<and> binding_of (parse_args Strict
     [ParameterRule \<lparr>type = None, default = None, required = False,
        choices = Some (ChoiceList [VStr ''42'']), strict_choices = True,
        param_keywords = [''--param''], name = None, multiple = False, param_help = None\<rparr>]
     [''--param=42'']) ''param'' = Some (VStr ''42'')
   \<and> parse_args Strict
     [ParameterRule \<lparr>type = None, default = None, required = False,
        choices = Some (ChoiceProducer (\<lambda>u. Inr [VStr ''42''])), strict_choices = True,
        param_keywords = [''--param''], name = None, multiple = False, param_help = None\<rparr>]
     [''--param=4''] = Inl (CliError ChoiceViolation)
   \<and> binding_of (parse_args Strict
     [ParameterRule \<lparr>type = None, default = None, required = False,
        choices = Some (ChoiceProducer (\<lambda>u. Inr [VStr ''42''])), strict_choices = True,
        param_keywords = [''--param''], name = None, multiple = False, param_help = None\<rparr>]
     [''--param=42'']) ''param'' = Some (VStr ''42'')"
  using validate_choice_strict [of "\<lparr>type = None, default = None, required = False,
        choices = Some (ChoiceList [VStr ''42'']), strict_choices = True,
        param_keywords = [''--param''], name = None, multiple = False, param_help = None\<rparr>"
      "[VStr ''42'']"
      "initial [ParameterRule \<lparr>type = None, default = None, required = False,
        choices = Some (ChoiceList [VStr ''42'']), strict_choices = True,
        param_keywords = [''--param''], name = None, multiple = False, param_help = None\<rparr>]"
      "''--param''" "''4''" Strict "[]"]
    validate_choice_strict [of "\<lparr>type = None, default = None, required = False,
        choices = Some (ChoiceProducer (\<lambda>u. Inr [VStr ''42''])), strict_choices = True,
        param_keywords = [''--param''], name = None, multiple = False, param_help = None\<rparr>"
      "[VStr ''42'']"
      "initial [ParameterRule \<lparr>type = None, default = None, required = False,
        choices = Some (ChoiceProducer (\<lambda>u. Inr [VStr ''42''])), strict_choices = True,
        param_keywords = [''--param''], name = None, multiple = False, param_help = None\<rparr>]"
      "''--param''" "''42''" Strict "[]"]
  by (simp add: parser_defs)

text \<open>
  Claim C6. For a parameter reachable in the current state, the token \<open>keyword=v\<close> and
  the two tokens \<open>keyword\<close>, \<open>v\<close> lead to the same result of the resolution pass,
  whatever follows: the same bindings, or the same failure.
\<close>

theorem equals_form_same_as_two_tokens:
  assumes "wf_keywords (active_rules c)" "ParameterRule p \<in> set (active_rules c)"
    "kw \<in> set (param_keywords p)"
  shows "parse_tokens m c ((kw @ ''='' @ v) # ts) = parse_tokens m c (kw # v # ts)
     \<and> (c = initial rules \<longrightarrow>
          parse_args m rules ((kw @ ''='' @ v) # ts) = parse_args m rules (kw # v # ts))"
proof (intro conjI impI)
  show same: "parse_tokens m c ((kw @ ''='' @ v) # ts) = parse_tokens m c (kw # v # ts)"
    by (simp only: parse_tokens_equals_form [OF assms] parse_tokens_two_tokens [OF assms])
  assume "c = initial rules"
  with same show "parse_args m rules ((kw @ ''='' @ v) # ts) = parse_args m rules (kw # v # ts)"
    by (simp only: parse_args_def)
qed

theorem equals_form_same_as_two_tokens_witness:
  "parse_args Strict
     [ParameterRule \<lparr>type = None, default = None, required = False, choices = None,
        strict_choices = False, param_keywords = [''--param'', ''-p''], name = None,
        multiple = False, param_help = None\<rparr>] [''-p=OK'']
   = parse_args Strict
     [ParameterRule \<lparr>type = None, default = None, required = False, choices = None,
        strict_choices = False, param_keywords = [''--param'', ''-p''], name = None,
        multiple = False, param_help = None\<rparr>] [''-p'', ''OK'']
   \<and> binding_of (parse_args Strict
     [ParameterRule \<lparr>type = None, default = None, required = False, choices = None,
        strict_choices = False, param_keywords = [''--param'', ''-p''], name = None,
        multiple = False, param_help = None\<rparr>] [''-p=OK'']) ''param'' = Some (VStr ''OK'')"
  using equals_form_same_as_two_tokens [of "initial [ParameterRule \<lparr>type = None, default = None, required = False, choices = None,
        strict_choices = False, param_keywords = [''--param'', ''-p''], name = None,
        multiple = False, param_help = None\<rparr>]"
      "\<lparr>type = None, default = None, required = False, choices = None,
        strict_choices = False, param_keywords = [''--param'', ''-p''], name = None,
        multiple = False, param_help = None\<rparr>" "''-p''" Strict "''OK''" "[]"
      "[ParameterRule \<lparr>type = None, default = None, required = False, choices = None,
        strict_choices = False, param_keywords = [''--param'', ''-p''], name = None,
        multiple = False, param_help = None\<rparr>]"]
  by (simp add: parser_defs)



text \<open>
  Claim C8, as stated, fails: an unbound optional parameter that is multiple does not
  receive its declared default, but the empty sequence (as in
  \<open>test_multi_parameters\<close>, where the sum of the absent parameter is 0).
\<close>

theorem unbound_multiple_not_default:
  "binding_of (parse_args Strict
     [ParameterRule \<lparr>type = Some (Callable py_int), default = None, required = False,
        choices = None, strict_choices = False, param_keywords = [''--param''], name = None,
        multiple = True, param_help = None\<rparr>] []) ''param'' = Some (VList [])
   \<and> binding_of (parse_args Strict
     [ParameterRule \<lparr>type = Some (Callable py_int), default = None, required = False,
        choices = None, strict_choices = False, param_keywords = [''--param''], name = None,
        multiple = True, param_help = None\<rparr>] []) ''param'' \<noteq> Some VNone
   \<and> binding_of (parse_args Strict
     [ParameterRule \<lparr>type = Some (Callable py_int), default = Some (VInt 5), required = False,
        choices = None, strict_choices = False, param_keywords = [''--param''], name = None,
        multiple = True, param_help = None\<rparr>] []) ''param'' \<noteq> Some (VInt 5)"
  by (simp add: parser_defs)

text \<open>
  Claim C8, amended. In strict mode, finalization fails with
  \<open>MissingRequiredArgument\<close> whenever a reachable rule is required and its variable
  was never bound. Otherwise it succeeds, keeps every binding, and gives every unbound
  parameter that is not multiple and every unbound positional argument its declared
  default, \<open>None\<close> when it declares none.
\<close>

theorem finalize_required_and_defaults:
  "((\<exists>r \<in> set (active_rules c). rule_required r \<and> \<not> rule_bound (bindings c) r) \<longrightarrow>
       finalize c = Inl (CliError MissingRequiredArgument))
   \<and> (\<not> (\<exists>r \<in> set (active_rules c). rule_required r \<and> \<not> rule_bound (bindings c) r) \<longrightarrow>
       (\<exists>c'. finalize c = Inr c'
          \<and> (\<forall>n v. bindings c n = Some v \<longrightarrow> bindings c' n = Some v)
          \<and> (wf_names (active_rules c) \<longrightarrow>
               (\<forall>p. ParameterRule p \<in> set (active_rules c) \<longrightarrow> \<not> multiple p \<longrightarrow>
                    \<not> rule_bound (bindings c) (ParameterRule p) \<longrightarrow>
                    (\<forall>n \<in> set (var_names (ParameterRule p)).
                        bindings c' n = Some (case default p of None \<Rightarrow> VNone | Some d \<Rightarrow> d)))
             \<and> (\<forall>a. PositionalArgumentRule a \<in> set (active_rules c) \<longrightarrow>
                    \<not> rule_bound (bindings c) (PositionalArgumentRule a) \<longrightarrow>
                    bindings c' (arg_name a)
                      = Some (case default a of None \<Rightarrow> VNone | Some d \<Rightarrow> d)))))"
proof (intro conjI impI)
  assume "\<exists>r \<in> set (active_rules c). rule_required r \<and> \<not> rule_bound (bindings c) r"
  then show "finalize c = Inl (CliError MissingRequiredArgument)"
    by (simp add: finalize_def list_ex_iff)
next
  assume ok: "\<not> (\<exists>r \<in> set (active_rules c). rule_required r \<and> \<not> rule_bound (bindings c) r)"
  let ?c' = "c\<lparr>bindings := fold apply_default (active_rules c) (bindings c)\<rparr>"
  have fin: "finalize c = Inr ?c'"
    using ok by (simp add: finalize_def list_ex_iff)
  have keep: "\<forall>n v. bindings c n = Some v \<longrightarrow> bindings ?c' n = Some v"
    by (simp add: fold_apply_default_keeps)
  have par: "bindings ?c' n = Some (case default p of None \<Rightarrow> VNone | Some d \<Rightarrow> d)"
    if "wf_names (active_rules c)" "ParameterRule p \<in> set (active_rules c)" "\<not> multiple p"
      "\<not> rule_bound (bindings c) (ParameterRule p)" "n \<in> set (var_names (ParameterRule p))"
    for p n
    using fold_apply_default_binds [OF that(1,2) _ that(4,5), of "default_value (default p)"] that(3)
    by (simp add: default_value_def)
  have pos: "bindings ?c' (arg_name a) = Some (case default a of None \<Rightarrow> VNone | Some d \<Rightarrow> d)"
    if "wf_names (active_rules c)" "PositionalArgumentRule a \<in> set (active_rules c)"
      "\<not> rule_bound (bindings c) (PositionalArgumentRule a)"
    for a
    using fold_apply_default_binds [OF that(1,2) _ that(3), of "default_value (default a)" "arg_name a"]
    by (simp add: default_value_def)
  show "\<exists>c'. finalize c = Inr c'
          \<and> (\<forall>n v. bindings c n = Some v \<longrightarrow> bindings c' n = Some v)
          \<and> (wf_names (active_rules c) \<longrightarrow>
               (\<forall>p. ParameterRule p \<in> set (active_rules c) \<longrightarrow> \<not> multiple p \<longrightarrow>
                    \<not> rule_bound (bindings c) (ParameterRule p) \<longrightarrow>
                    (\<forall>n \<in> set (var_names (ParameterRule p)).
                        bindings c' n = Some (case default p of None \<Rightarrow> VNone | Some d \<Rightarrow> d)))
             \<and> (\<forall>a. PositionalArgumentRule a \<in> set (active_rules c) \<longrightarrow>
                    \<not> rule_bound (bindings c) (PositionalArgumentRule a) \<longrightarrow>
                    bindings c' (arg_name a)
                      = Some (case default a of None \<Rightarrow> VNone | Some d \<Rightarrow> d)))"
    using fin keep par pos by (intro exI [of _ ?c']) (simp only: simp_thms, blast)
qed

theorem finalize_required_and_defaults_witness:
  "binding_of (parse_args Strict
     [ParameterRule \<lparr>type = None, default = None, required = False, choices = None,
        strict_choices = False, param_keywords = [''--param'', ''-p''], name = None,
        multiple = False, param_help = None\<rparr>] []) ''param'' = Some VNone
   \<and> parse_args Strict
     [ParameterRule \<lparr>type = None, default = None, required = True, choices = None,
        strict_choices = False, param_keywords = [''--param''], name = None,
        multiple = False, param_help = None\<rparr>] [] = Inl (CliError MissingRequiredArgument)"
  using finalize_required_and_defaults [of "initial [ParameterRule \<lparr>type = None, default = None, required = False, choices = None,
        strict_choices = False, param_keywords = [''--param'', ''-p''], name = None,
        multiple = False, param_help = None\<rparr>]"]
    finalize_required_and_defaults [of "initial [ParameterRule \<lparr>type = None, default = None, required = True, choices = None,
        strict_choices = False, param_keywords = [''--param''], name = None,
        multiple = False, param_help = None\<rparr>]"]
  by (simp add: parser_defs)

end
